theory Spec2Isabelle
  imports Complex_Main "HOL-Library.Char_ord" "HOL-Library.List_Lexorder"
begin

section \<open>Python values\<close>

text \<open>
  The library \<^verbatim>\<open>box\<close> (file \<^verbatim>\<open>box/box.py\<close>) wraps arbitrary Python values. The fragment
  of Python values modelled here: \<^verbatim>\<open>None\<close>, \<^verbatim>\<open>bool\<close>, \<^verbatim>\<open>int\<close> (unbounded), \<^verbatim>\<open>float\<close>,
  \<^verbatim>\<open>str\<close>, \<^verbatim>\<open>list\<close>, \<^verbatim>\<open>tuple\<close>, \<^verbatim>\<open>set\<close>, \<^verbatim>\<open>dict\<close> and instances of plain user classes.

  \<^item> A \<^verbatim>\<open>float\<close> is modelled by the rational number it denotes: rounding, infinities and
    NaN are not modelled. Complex numbers are outside the fragment.
  \<^item> A \<^verbatim>\<open>set\<close> is the list of its elements in iteration order, a \<^verbatim>\<open>dict\<close> the list of
    its key/value pairs in insertion order.
  \<^item> An instance of a user class carries an identity (a number) and its instance
    attributes; such an object compares equal to itself only, is hashable, is truthy and
    supports none of \<^verbatim>\<open>+\<close>, \<^verbatim>\<open><\<close>, iteration, \<^verbatim>\<open>len\<close> (the behaviour of a class that defines
    no special methods).
\<close>

datatype pyval =
    PNone
  | PBool bool
  | PInt int
  | PFloat rat
  | PStr string
  | PList "pyval list"
  | PTuple "pyval list"
  | PSet "pyval list"
  | PDict "(pyval \<times> pyval) list"
  | PObj nat "(string \<times> pyval) list"

text \<open>The exceptions that the code raises itself or that the operations it uses raise.\<close>

datatype pyerr =
    IndexError
  | ZeroDivisionError
  | ValueError
  | TypeError
  | AssertionError
  | AttributeError
  | KeyError

text \<open>\<^verbatim>\<open>type(x)\<close>.\<close>

datatype pytype =
    T_NoneType | T_bool | T_int | T_float | T_str | T_list | T_tuple | T_set | T_dict | T_object

fun type_of :: "pyval \<Rightarrow> pytype" where
  "type_of PNone = T_NoneType"
| "type_of (PBool _) = T_bool"
| "type_of (PInt _) = T_int"
| "type_of (PFloat _) = T_float"
| "type_of (PStr _) = T_str"
| "type_of (PList _) = T_list"
| "type_of (PTuple _) = T_tuple"
| "type_of (PSet _) = T_set"
| "type_of (PDict _) = T_dict"
| "type_of (PObj _ _) = T_object"

text \<open>
  \<^verbatim>\<open>isinstance(x, abc.Sequence)\<close>: \<^verbatim>\<open>collections.abc\<close> registers \<^verbatim>\<open>tuple\<close>, \<^verbatim>\<open>str\<close>,
  \<^verbatim>\<open>range\<close> and \<^verbatim>\<open>memoryview\<close> as \<^verbatim>\<open>Sequence\<close> and \<^verbatim>\<open>list\<close> as \<^verbatim>\<open>MutableSequence\<close>.
  \<^verbatim>\<open>isinstance(x, abc.Mapping)\<close> holds for \<^verbatim>\<open>dict\<close>, and
  \<^verbatim>\<open>isinstance(x, numbers.Complex)\<close> for \<^verbatim>\<open>bool\<close>, \<^verbatim>\<open>int\<close> and \<^verbatim>\<open>float\<close>.
\<close>

fun is_Sequence :: "pyval \<Rightarrow> bool" where
  "is_Sequence (PList _) = True"
| "is_Sequence (PTuple _) = True"
| "is_Sequence (PStr _) = True"
| "is_Sequence _ = False"

fun is_Mapping :: "pyval \<Rightarrow> bool" where
  "is_Mapping (PDict _) = True"
| "is_Mapping _ = False"

fun is_numbers_Complex :: "pyval \<Rightarrow> bool" where
  "is_numbers_Complex (PBool _) = True"
| "is_numbers_Complex (PInt _) = True"
| "is_numbers_Complex (PFloat _) = True"
| "is_numbers_Complex _ = False"

text \<open>The integer and the numeric value of a number (\<^verbatim>\<open>True\<close> is 1, \<^verbatim>\<open>False\<close> is 0).\<close>

fun int_of :: "pyval \<Rightarrow> int option" where
  "int_of (PBool b) = Some (if b then 1 else 0)"
| "int_of (PInt i) = Some i"
| "int_of _ = None"

fun num_of :: "pyval \<Rightarrow> rat option" where
  "num_of (PBool b) = Some (if b then 1 else 0)"
| "num_of (PInt i) = Some (of_int i)"
| "num_of (PFloat r) = Some r"
| "num_of _ = None"

text \<open>\<^verbatim>\<open>bool(x)\<close>, the truth value of \<^verbatim>\<open>x\<close>.\<close>

fun py_bool :: "pyval \<Rightarrow> bool" where
  "py_bool PNone = False"
| "py_bool (PBool b) = b"
| "py_bool (PInt i) = (i \<noteq> 0)"
| "py_bool (PFloat r) = (r \<noteq> 0)"
| "py_bool (PStr s) = (s \<noteq> [])"
| "py_bool (PList xs) = (xs \<noteq> [])"
| "py_bool (PTuple xs) = (xs \<noteq> [])"
| "py_bool (PSet xs) = (xs \<noteq> [])"
| "py_bool (PDict kvs) = (kvs \<noteq> [])"
| "py_bool (PObj _ _) = True"

text \<open>\<^verbatim>\<open>len(x)\<close>; a value without a length raises \<^verbatim>\<open>TypeError\<close>.\<close>

fun py_len :: "pyval \<Rightarrow> pyerr + nat" where
  "py_len (PStr s) = Inr (length s)"
| "py_len (PList xs) = Inr (length xs)"
| "py_len (PTuple xs) = Inr (length xs)"
| "py_len (PSet xs) = Inr (length xs)"
| "py_len (PDict kvs) = Inr (length kvs)"
| "py_len _ = Inl TypeError"

text \<open>
  The values that iterating \<^verbatim>\<open>x\<close> produces (a \<^verbatim>\<open>dict\<close> iterates its keys, a \<^verbatim>\<open>str\<close> its
  one-character strings); a value that is not iterable raises \<^verbatim>\<open>TypeError\<close>.
\<close>

fun py_iter :: "pyval \<Rightarrow> pyerr + pyval list" where
  "py_iter (PStr s) = Inr (map (\<lambda>c. PStr [c]) s)"
| "py_iter (PList xs) = Inr xs"
| "py_iter (PTuple xs) = Inr xs"
| "py_iter (PSet xs) = Inr xs"
| "py_iter (PDict kvs) = Inr (map fst kvs)"
| "py_iter _ = Inl TypeError"

text \<open>\<^verbatim>\<open>x == y\<close>: numbers compare by value across \<^verbatim>\<open>bool\<close>, \<^verbatim>\<open>int\<close> and \<^verbatim>\<open>float\<close>.\<close>

fun py_eq :: "pyval \<Rightarrow> pyval \<Rightarrow> bool" where
  "py_eq PNone b = (b = PNone)"
| "py_eq (PBool x) b = (num_of b = Some (if x then 1 else 0))"
| "py_eq (PInt i) b = (num_of b = Some (of_int i))"
| "py_eq (PFloat r) b = (num_of b = Some r)"
| "py_eq (PStr s) b = (b = PStr s)"
| "py_eq (PList xs) b = (case b of PList ys \<Rightarrow> list_all2 py_eq xs ys | _ \<Rightarrow> False)"
| "py_eq (PTuple xs) b = (case b of PTuple ys \<Rightarrow> list_all2 py_eq xs ys | _ \<Rightarrow> False)"
| "py_eq (PSet xs) b = (case b of
       PSet ys \<Rightarrow> list_all (\<lambda>x. list_ex (\<lambda>y. py_eq x y) ys) xs
                \<and> list_all (\<lambda>y. list_ex (\<lambda>x. py_eq x y) xs) ys
     | _ \<Rightarrow> False)"
| "py_eq (PDict xs) b = (case b of
       PDict ys \<Rightarrow> list_all (\<lambda>(k, v). list_ex (\<lambda>(k', v'). py_eq k k' \<and> py_eq v v') ys) xs
                 \<and> list_all (\<lambda>(k', v'). list_ex (\<lambda>(k, v). py_eq k k' \<and> py_eq v v') xs) ys
     | _ \<Rightarrow> False)"
| "py_eq (PObj i _) b = (case b of PObj j _ \<Rightarrow> i = j | _ \<Rightarrow> False)"

text \<open>\<^verbatim>\<open>hash(x)\<close> succeeds: lists, sets and dicts are unhashable.\<close>

fun hashable :: "pyval \<Rightarrow> bool" where
  "hashable (PList _) = False"
| "hashable (PSet _) = False"
| "hashable (PDict _) = False"
| "hashable (PTuple xs) = list_all hashable xs"
| "hashable _ = True"

text \<open>
  The ordering comparisons \<^verbatim>\<open><\<close>, \<^verbatim>\<open><=\<close>, \<^verbatim>\<open>>\<close>, \<^verbatim>\<open>>=\<close>: numbers by value, strings by code
  points, lists and tuples lexicographically, sets by inclusion; every other pair of
  operands raises \<^verbatim>\<open>TypeError\<close>.
\<close>

datatype cmpop = Lt | Le | Gt | Ge

fun ord_cmp :: "cmpop \<Rightarrow> 'a::linorder \<Rightarrow> 'a \<Rightarrow> bool" where
  "ord_cmp Lt x y = (x < y)"
| "ord_cmp Le x y = (x \<le> y)"
| "ord_cmp Gt x y = (y < x)"
| "ord_cmp Ge x y = (y \<le> x)"

definition set_le :: "pyval list \<Rightarrow> pyval list \<Rightarrow> bool" where
  "set_le xs ys = list_all (\<lambda>x. list_ex (\<lambda>y. py_eq x y) ys) xs"

fun set_cmp :: "cmpop \<Rightarrow> pyval list \<Rightarrow> pyval list \<Rightarrow> bool" where
  "set_cmp Le xs ys = set_le xs ys"
| "set_cmp Lt xs ys = (set_le xs ys \<and> \<not> set_le ys xs)"
| "set_cmp Ge xs ys = set_le ys xs"
| "set_cmp Gt xs ys = (set_le ys xs \<and> \<not> set_le xs ys)"

fun py_cmp :: "cmpop \<Rightarrow> pyval \<Rightarrow> pyval \<Rightarrow> pyerr + bool"
  and cmp_seq :: "cmpop \<Rightarrow> pyval list \<Rightarrow> pyval list \<Rightarrow> pyerr + bool" where
  "py_cmp op PNone b = Inl TypeError"
| "py_cmp op (PBool x) b =
     (case num_of b of Some r \<Rightarrow> Inr (ord_cmp op (if x then 1 else 0) r) | None \<Rightarrow> Inl TypeError)"
| "py_cmp op (PInt i) b =
     (case num_of b of Some r \<Rightarrow> Inr (ord_cmp op (of_int i) r) | None \<Rightarrow> Inl TypeError)"
| "py_cmp op (PFloat q) b =
     (case num_of b of Some r \<Rightarrow> Inr (ord_cmp op q r) | None \<Rightarrow> Inl TypeError)"
| "py_cmp op (PStr s) b = (case b of PStr t \<Rightarrow> Inr (ord_cmp op s t) | _ \<Rightarrow> Inl TypeError)"
| "py_cmp op (PList xs) b = (case b of PList ys \<Rightarrow> cmp_seq op xs ys | _ \<Rightarrow> Inl TypeError)"
| "py_cmp op (PTuple xs) b = (case b of PTuple ys \<Rightarrow> cmp_seq op xs ys | _ \<Rightarrow> Inl TypeError)"
| "py_cmp op (PSet xs) b = (case b of PSet ys \<Rightarrow> Inr (set_cmp op xs ys) | _ \<Rightarrow> Inl TypeError)"
| "py_cmp op (PDict kvs) b = Inl TypeError"
| "py_cmp op (PObj i as) b = Inl TypeError"
| "cmp_seq op [] ys = Inr (ord_cmp op (0::nat) (length ys))"
| "cmp_seq op (x # xs) ys =
     (case ys of
        [] \<Rightarrow> Inr (ord_cmp op (1::nat) 0)
      | y # ys' \<Rightarrow> if py_eq x y then cmp_seq op xs ys' else py_cmp op x y)"

text \<open>\<^verbatim>\<open>x + y\<close> and \<^verbatim>\<open>x / y\<close> (true division).\<close>

definition py_add :: "pyval \<Rightarrow> pyval \<Rightarrow> pyerr + pyval" where
  "py_add a b =
     (case (int_of a, int_of b) of
        (Some i, Some j) \<Rightarrow> Inr (PInt (i + j))
      | _ \<Rightarrow>
        (case (num_of a, num_of b) of
           (Some x, Some y) \<Rightarrow> Inr (PFloat (x + y))
         | _ \<Rightarrow>
           (case a of
              PStr s \<Rightarrow> (case b of PStr t \<Rightarrow> Inr (PStr (s @ t)) | _ \<Rightarrow> Inl TypeError)
            | PList xs \<Rightarrow> (case b of PList ys \<Rightarrow> Inr (PList (xs @ ys)) | _ \<Rightarrow> Inl TypeError)
            | PTuple xs \<Rightarrow> (case b of PTuple ys \<Rightarrow> Inr (PTuple (xs @ ys)) | _ \<Rightarrow> Inl TypeError)
            | _ \<Rightarrow> Inl TypeError)))"

definition py_truediv :: "pyval \<Rightarrow> pyval \<Rightarrow> pyerr + pyval" where
  "py_truediv a b =
     (case (num_of a, num_of b) of
        (Some x, Some y) \<Rightarrow> if y = 0 then Inl ZeroDivisionError else Inr (PFloat (x / y))
      | _ \<Rightarrow> Inl TypeError)"

text \<open>
  Subscription of a sequence by an integer (\<^verbatim>\<open>xs[i]\<close>, a negative index counts from the
  end, an index out of range raises \<^verbatim>\<open>IndexError\<close>) and by a slice \<^verbatim>\<open>xs[i:j]\<close> (bounds are
  clamped to the length, never an error).
\<close>

definition seq_index :: "'a list \<Rightarrow> int \<Rightarrow> pyerr + 'a" where
  "seq_index xs i =
     (let n = int (length xs); j = (if i < 0 then i + n else i)
      in if 0 \<le> j \<and> j < n then Inr (xs ! nat j) else Inl IndexError)"



text \<open>\<^verbatim>\<open>d[k]\<close> for a dict: an unhashable key raises \<^verbatim>\<open>TypeError\<close>, an absent one \<^verbatim>\<open>KeyError\<close>.\<close>

definition dict_getitem :: "(pyval \<times> pyval) list \<Rightarrow> pyval \<Rightarrow> pyerr + pyval" where
  "dict_getitem kvs k =
     (if \<not> hashable k then Inl TypeError
      else case find (\<lambda>(k', v). py_eq k' k) kvs of
             Some (k', v) \<Rightarrow> Inr v
           | None \<Rightarrow> Inl KeyError)"


text \<open>
  \<^verbatim>\<open>obj in c\<close> for a built-in container \<^verbatim>\<open>c\<close>: lists and tuples compare element by
  element, sets and dicts hash \<^verbatim>\<open>obj\<close> first, a string looks for a substring.
\<close>

fun py_in :: "pyval \<Rightarrow> pyval \<Rightarrow> pyerr + bool" where
  "py_in obj (PList xs) = Inr (list_ex (\<lambda>v. py_eq v obj) xs)"
| "py_in obj (PTuple xs) = Inr (list_ex (\<lambda>v. py_eq v obj) xs)"
| "py_in obj (PSet xs) =
     (if hashable obj then Inr (list_ex (\<lambda>v. py_eq v obj) xs) else Inl TypeError)"
| "py_in obj (PDict kvs) =
     (if hashable obj then Inr (list_ex (\<lambda>(k, v). py_eq k obj) kvs) else Inl TypeError)"
| "py_in obj (PStr s) =
     (case obj of
        PStr t \<Rightarrow> Inr (list_ex (\<lambda>i. take (length t) (drop i s) = t) [0 ..< Suc (length s)])
      | _ \<Rightarrow> Inl TypeError)"
| "py_in obj _ = Inl TypeError"

text \<open>
  \<^verbatim>\<open>hasattr(obj, key)\<close> and \<^verbatim>\<open>getattr(obj, key)\<close>: \<^verbatim>\<open>None\<close> when the attribute is absent.
  Only the instance attributes of user objects are modelled; the methods and special
  attributes that Python gives to every value (\<^verbatim>\<open>__class__\<close>, \<^verbatim>\<open>dict.items\<close>, ...) are
  outside the fragment.
\<close>

fun py_getattr :: "pyval \<Rightarrow> string \<Rightarrow> pyval option" where
  "py_getattr (PObj i as) key = map_of as key"
| "py_getattr _ key = None"

section \<open>Generators\<close>

text \<open>
  A generator that is run to its end is modelled by its outcome: the values it yields, in
  order, and the exception that ends it, if one does. The consumer sees the values first
  and the exception after them.
\<close>

type_synonym gen = "pyval list \<times> pyerr option"

text \<open>A generator that evaluates the given steps in order, until the first that raises.\<close>

fun gen_collect :: "(pyerr + pyval) list \<Rightarrow> gen" where
  "gen_collect [] = ([], None)"
| "gen_collect (Inl e # rs) = ([], Some e)"
| "gen_collect (Inr v # rs) = (case gen_collect rs of (vs, err) \<Rightarrow> (v # vs, err))"

text \<open>
  \<^verbatim>\<open>(f(value) for value in g)\<close>: \<^verbatim>\<open>f\<close> is applied to each value of \<^verbatim>\<open>g\<close>; the generator ends
  with the first exception of \<^verbatim>\<open>f\<close>, or with the exception of \<^verbatim>\<open>g\<close>.
\<close>

definition gen_map :: "(pyval \<Rightarrow> pyerr + pyval) \<Rightarrow> gen \<Rightarrow> gen" where
  "gen_map f g =
     (case gen_collect (map f (fst g)) of
        (ws, Some e) \<Rightarrow> (ws, Some e)
      | (ws, None) \<Rightarrow> (ws, snd g))"

text \<open>The end of a \<^verbatim>\<open>for\<close> loop over a generator: its exception, if any, is raised.\<close>

fun finish :: "pyerr option \<Rightarrow> 'a \<Rightarrow> pyerr + 'a" where
  "finish None r = Inr r"
| "finish (Some e) r = Inl e"

section \<open>Calling a type on an iterable\<close>

text \<open>
  \<^verbatim>\<open>set(g)\<close> inserts the values of \<^verbatim>\<open>g\<close> one by one: an unhashable value raises
  \<^verbatim>\<open>TypeError\<close>, a value equal to an element is dropped. (The iteration order of the
  result is taken to be the insertion order.)
\<close>

fun set_insert_all :: "pyval list \<Rightarrow> pyval list \<Rightarrow> pyerr + pyval list" where
  "set_insert_all acc [] = Inr acc"
| "set_insert_all acc (v # vs) =
     (if \<not> hashable v then Inl TypeError
      else if list_ex (\<lambda>x. py_eq x v) acc then set_insert_all acc vs
      else set_insert_all (acc @ [v]) vs)"

text \<open>
  \<^verbatim>\<open>dict(g)\<close> takes each value of \<^verbatim>\<open>g\<close> as a key/value pair: a value that is not iterable
  raises \<^verbatim>\<open>TypeError\<close>, one that is not of length 2 \<^verbatim>\<open>ValueError\<close>, an unhashable key
  \<^verbatim>\<open>TypeError\<close>; a key already present keeps its place and takes the new value.
\<close>

fun dict_store :: "(pyval \<times> pyval) list \<Rightarrow> pyval \<Rightarrow> pyval \<Rightarrow> (pyval \<times> pyval) list" where
  "dict_store [] k v = [(k, v)]"
| "dict_store ((k', v') # kvs) k v =
     (if py_eq k' k then (k', v) # kvs else (k', v') # dict_store kvs k v)"

fun dict_insert_all :: "(pyval \<times> pyval) list \<Rightarrow> pyval list \<Rightarrow> pyerr + (pyval \<times> pyval) list" where
  "dict_insert_all acc [] = Inr acc"
| "dict_insert_all acc (p # ps) =
     (case py_iter p of
        Inl e \<Rightarrow> Inl TypeError
      | Inr [k, v] \<Rightarrow>
          if hashable k then dict_insert_all (dict_store acc k v) ps else Inl TypeError
      | Inr _ \<Rightarrow> Inl ValueError)"

text \<open>
  \<^verbatim>\<open>t(g)\<close> for a type \<^verbatim>\<open>t\<close> and a generator \<^verbatim>\<open>g\<close>, as \<^verbatim>\<open>item_type(items)\<close> calls it.
  \<^verbatim>\<open>list\<close>, \<^verbatim>\<open>tuple\<close>, \<^verbatim>\<open>set\<close> and \<^verbatim>\<open>dict\<close> consume the generator. \<^verbatim>\<open>bool(g)\<close> is \<^verbatim>\<open>True\<close> and
  \<^verbatim>\<open>str(g)\<close> is the printed form of the generator object, neither runs \<^verbatim>\<open>g\<close>; the printed
  form holds a memory address, for which the model has a fixed text. \<^verbatim>\<open>NoneType\<close>, \<^verbatim>\<open>int\<close>,
  \<^verbatim>\<open>float\<close> and a class without \<^verbatim>\<open>__init__\<close> reject the argument with \<^verbatim>\<open>TypeError\<close>.
\<close>

fun call_type :: "pytype \<Rightarrow> gen \<Rightarrow> pyerr + pyval" where
  "call_type T_list (vs, err) = finish err (PList vs)"
| "call_type T_tuple (vs, err) = finish err (PTuple vs)"
| "call_type T_set (vs, err) =
     (case set_insert_all [] vs of Inl e \<Rightarrow> Inl e | Inr xs \<Rightarrow> finish err (PSet xs))"
| "call_type T_dict (vs, err) =
     (case dict_insert_all [] vs of Inl e \<Rightarrow> Inl e | Inr kvs \<Rightarrow> finish err (PDict kvs))"
| "call_type T_bool g = Inr (PBool True)"
| "call_type T_str g = Inr (PStr ''<generator object>'')"
| "call_type T_NoneType g = Inl TypeError"
| "call_type T_int g = Inl TypeError"
| "call_type T_float g = Inl TypeError"
| "call_type T_object g = Inl TypeError"

section \<open>The classes of \<^verbatim>\<open>box.py\<close>\<close>

text \<open>
  A Box object has the attribute \<^verbatim>\<open>_items\<close> (field \<open>u_items\<close>), set by \<^verbatim>\<open>Box.__init__\<close>,
  and, when it is a \<^verbatim>\<open>SequenceBox\<close>, the attribute \<^verbatim>\<open>items\<close>, set by
  \<^verbatim>\<open>SequenceBox.__init__\<close>. The field \<open>cls\<close> is \<^verbatim>\<open>type(self)\<close>.

  Names: \<^verbatim>\<open>C.__init__\<close> is \<open>C_init\<close>, the special methods \<^verbatim>\<open>__bool__\<close>, \<^verbatim>\<open>__iter__\<close>,
  \<^verbatim>\<open>__contains__\<close>, \<^verbatim>\<open>__len__\<close>, \<^verbatim>\<open>__getitem__\<close>, \<^verbatim>\<open>__reversed__\<close> drop their underscores,
  \<^verbatim>\<open>_new\<close> is \<open>Box_new\<close> and \<^verbatim>\<open>_where\<close> is \<open>Box_where_item\<close>.
\<close>

datatype box_class = Box | SizedBox | SequenceBox | MappingBox | MutableMappingBox | MutableSetBox

record box =
  cls :: box_class
  u_items :: pyval
  items :: "pyval option"

text \<open>
  \<^verbatim>\<open>Box.__init__\<close>: a new object has no \<^verbatim>\<open>_items\<close> yet (the class body only annotates the
  name), so the attribute is set.
\<close>

definition Box_init :: "box_class \<Rightarrow> pyval \<Rightarrow> box" where
  "Box_init c its = \<lparr>cls = c, u_items = its, items = None\<rparr>"

text \<open>\<^verbatim>\<open>SequenceBox.__init__\<close>.\<close>

definition SequenceBox_init :: "pyval \<Rightarrow> box" where
  "SequenceBox_init its =
     (Box_init SequenceBox its)\<lparr>items := Some (if is_Sequence its then its else PList [its])\<rparr>"

text \<open>\<^verbatim>\<open>type(self)(x)\<close>: the call of a class runs its \<^verbatim>\<open>__init__\<close>.\<close>

definition construct :: "box_class \<Rightarrow> pyval \<Rightarrow> box" where
  "construct c its = (if c = SequenceBox then SequenceBox_init its else Box_init c its)"

text \<open>\<^verbatim>\<open>Box.__bool__\<close>, \<^verbatim>\<open>Box.__contains__\<close>, \<^verbatim>\<open>Box.__iter__\<close> and \<^verbatim>\<open>Box.item_type\<close>.\<close>

definition Box_bool :: "box \<Rightarrow> bool" where
  "Box_bool self = py_bool (u_items self)"

definition Box_contains :: "box \<Rightarrow> pyval \<Rightarrow> pyerr + bool" where
  "Box_contains self obj = py_in obj (u_items self)"

definition Box_iter :: "box \<Rightarrow> gen" where
  "Box_iter self =
     (case py_iter (u_items self) of Inl e \<Rightarrow> ([], Some e) | Inr vs \<Rightarrow> (vs, None))"

definition item_type :: "box \<Rightarrow> pytype" where
  "item_type self = type_of (u_items self)"

text \<open>\<^verbatim>\<open>SizedBox.__len__\<close>; the class \<^verbatim>\<open>Box\<close> has no \<^verbatim>\<open>__len__\<close>, so \<^verbatim>\<open>len\<close> raises there.\<close>

definition SizedBox_len :: "box \<Rightarrow> pyerr + nat" where
  "SizedBox_len self = (if cls self = Box then Inl TypeError else py_len (u_items self))"

text \<open>
  \<^verbatim>\<open>SequenceBox.__getitem__\<close> returns \<^verbatim>\<open>self.items[index]\<close>, for an integer and for a slice
  \<^verbatim>\<open>i:j\<close>. The attribute \<^verbatim>\<open>items\<close> is a list, a tuple or a string by construction; for
  any other content of the field the model raises \<^verbatim>\<open>TypeError\<close>.
\<close>

definition SequenceBox_getitem :: "box \<Rightarrow> int \<Rightarrow> pyerr + pyval" where
  "SequenceBox_getitem self index =
     (case items self of
        None \<Rightarrow> Inl AttributeError
      | Some (PList xs) \<Rightarrow> seq_index xs index
      | Some (PTuple xs) \<Rightarrow> seq_index xs index
      | Some (PStr s) \<Rightarrow> seq_index (map (\<lambda>c. PStr [c]) s) index
      | Some _ \<Rightarrow> Inl TypeError)"


text \<open>The length of \<^verbatim>\<open>self.items\<close>, which bounds the loop of \<^verbatim>\<open>Sequence.__iter__\<close> below.\<close>

definition items_len :: "box \<Rightarrow> nat" where
  "items_len self =
     (case items self of
        Some (PList xs) \<Rightarrow> length xs
      | Some (PTuple xs) \<Rightarrow> length xs
      | Some (PStr s) \<Rightarrow> length s
      | _ \<Rightarrow> 0)"

text \<open>
  The method resolution order of \<^verbatim>\<open>class SequenceBox(SizedBox, abc.Sequence)\<close> is
  \<^verbatim>\<open>SequenceBox, SizedBox, Sequence, Reversible, Collection, Sized, Box, Iterable,
  Container, object\<close> (\<^verbatim>\<open>Sized\<close> is a base of \<^verbatim>\<open>Sequence\<close> too, so it and \<^verbatim>\<open>Box\<close> behind it
  come after \<^verbatim>\<open>Sequence\<close>). On a \<^verbatim>\<open>SequenceBox\<close>, \<^verbatim>\<open>__iter__\<close>, \<^verbatim>\<open>__contains__\<close> and
  \<^verbatim>\<open>__reversed__\<close> are therefore the mixin methods of \<^verbatim>\<open>collections.abc.Sequence\<close>, which
  work through \<^verbatim>\<open>__getitem__\<close> and \<^verbatim>\<open>__len__\<close>:
  \<^verbatim>\<open>
    def __iter__(self):
        i = 0
        try:
            while True:
                v = self[i]
                yield v
                i += 1
        except IndexError:
            return

    def __contains__(self, value):
        for v in self:
            if v is value or v == value:
                return True
        return False

    def __reversed__(self):
        for i in reversed(range(len(self))):
            yield self[i]
  \<close>
  \<^verbatim>\<open>__len__\<close> is \<^verbatim>\<open>SizedBox.__len__\<close> and \<^verbatim>\<open>__bool__\<close> is \<^verbatim>\<open>Box.__bool__\<close> for every class.
\<close>

function Sequence_iter_from :: "box \<Rightarrow> nat \<Rightarrow> gen" where
  "Sequence_iter_from self i =
     (case SequenceBox_getitem self (int i) of
        Inl e \<Rightarrow> if e = IndexError then ([], None) else ([], Some e)
      | Inr v \<Rightarrow> (case Sequence_iter_from self (Suc i) of (vs, err) \<Rightarrow> (v # vs, err)))"
  by pat_completeness auto
termination
  by (relation "measure (\<lambda>(self, i). items_len self - i)")
    (auto simp: SequenceBox_getitem_def items_len_def seq_index_def Let_def
      split: option.splits pyval.splits if_splits)

declare Sequence_iter_from.simps [simp del]

definition Sequence_iter :: "box \<Rightarrow> gen" where
  "Sequence_iter self = Sequence_iter_from self 0"

fun Sequence_contains_loop :: "pyval list \<Rightarrow> pyval \<Rightarrow> bool" where
  "Sequence_contains_loop [] val = False"
| "Sequence_contains_loop (v # vs) val =
     (if v = val \<or> py_eq v val then True else Sequence_contains_loop vs val)"

definition Sequence_contains :: "box \<Rightarrow> pyval \<Rightarrow> pyerr + bool" where
  "Sequence_contains self val =
     (case Sequence_iter self of
        (vs, err) \<Rightarrow>
          if Sequence_contains_loop vs val then Inr True else finish err False)"


text \<open>\<^verbatim>\<open>iter(self)\<close>, as \<^verbatim>\<open>for value in self\<close> calls it, resolved by the class of \<^verbatim>\<open>self\<close>.\<close>

definition box_iter :: "box \<Rightarrow> gen" where
  "box_iter self = (if cls self = SequenceBox then Sequence_iter self else Box_iter self)"

subsection \<open>\<^verbatim>\<open>Box\<close>\<close>

text \<open>
  \<^verbatim>\<open>Box.chunk\<close> returns \<^verbatim>\<open>type(self)(generator())\<close>: the new Box wraps the generator object
  itself. The generator appends every value to the one list \<^verbatim>\<open>chunk\<close> and yields that
  list object whenever its length equals \<^verbatim>\<open>chunk_size\<close>; \<^verbatim>\<open>chunk\<close> is never emptied or
  rebound. \<open>chunk_loop\<close> is the loop of the generator: it returns the content of \<^verbatim>\<open>chunk\<close> at
  each \<^verbatim>\<open>yield\<close> and its content at the end. Every yielded value is the same object, so
  once the generator is exhausted each of them shows the final content (\<open>drained\<close>).
\<close>

fun chunk_loop :: "int \<Rightarrow> pyval list \<Rightarrow> pyval list \<Rightarrow> pyval list list \<times> pyval list" where
  "chunk_loop chunk_size chunk [] = ([], chunk)"
| "chunk_loop chunk_size chunk (v # vs) =
     (let chunk' = chunk @ [v]
      in if int (length chunk') = chunk_size
         then (case chunk_loop chunk_size chunk' vs of (ys, final) \<Rightarrow> (chunk' # ys, final))
         else chunk_loop chunk_size chunk' vs)"

record generator_box =
  gen_cls :: box_class
  yielded :: "pyval list list"
  chunk_final :: "pyval list"
  raised :: "pyerr option"

definition Box_chunk :: "box \<Rightarrow> int \<Rightarrow> generator_box" where
  "Box_chunk self chunk_size =
     (case box_iter self of
        (vs, err) \<Rightarrow>
          (case chunk_loop chunk_size [] vs of
             (ys, final) \<Rightarrow>
               \<lparr>gen_cls = cls self, yielded = ys, chunk_final = final, raised = err\<rparr>))"

definition drained :: "generator_box \<Rightarrow> pyval list" where
  "drained g = map (\<lambda>y. PList (chunk_final g)) (yielded g)"

text \<open>\<^verbatim>\<open>Box.first\<close> and \<^verbatim>\<open>Box.first_or_fail\<close>; a method that ends without \<^verbatim>\<open>return\<close> returns \<^verbatim>\<open>None\<close>.\<close>

definition Box_first :: "box \<Rightarrow> bool \<Rightarrow> pyerr + pyval" where
  "Box_first self or_fail =
     (case box_iter self of
        (v # vs, err) \<Rightarrow> Inr v
      | ([], Some e) \<Rightarrow> Inl e
      | ([], None) \<Rightarrow> if or_fail then Inl IndexError else Inr PNone)"

definition Box_first_or_fail :: "box \<Rightarrow> pyerr + pyval" where
  "Box_first_or_fail self = Box_first self True"

text \<open>\<^verbatim>\<open>Box._OPERATOR_MAPPING\<close> and \<^verbatim>\<open>Box._where\<close>.\<close>

definition op_eq :: "pyval \<Rightarrow> pyval \<Rightarrow> pyerr + bool" where
  "op_eq a b = Inr (py_eq a b)"

definition op_ne :: "pyval \<Rightarrow> pyval \<Rightarrow> pyerr + bool" where
  "op_ne a b = Inr (\<not> py_eq a b)"

definition OPERATOR_MAPPING :: "(string \<times> (pyval \<Rightarrow> pyval \<Rightarrow> pyerr + bool)) list" where
  "OPERATOR_MAPPING =
     [(''='', op_eq), (''=='', op_eq), (''!='', op_ne), (''<>'', op_ne),
      (''<='', py_cmp Le), (''>='', py_cmp Ge), (''<'', py_cmp Lt), (''>'', py_cmp Gt)]"

definition Box_where_item :: "pyval \<Rightarrow> string \<Rightarrow> string option \<Rightarrow> pyval \<Rightarrow> pyerr + bool" where
  "Box_where_item obj key operation val =
     (case (case py_getattr obj key of
              Some a \<Rightarrow> Inr a
            | None \<Rightarrow>
                (case obj of
                   PDict kvs \<Rightarrow> dict_getitem kvs (PStr key)
                 | _ \<Rightarrow> Inl ValueError)) of
        Inl e \<Rightarrow> Inl e
      | Inr a \<Rightarrow>
          (case operation of
             None \<Rightarrow> Inr (py_bool a)
           | Some opr \<Rightarrow>
               (case map_of OPERATOR_MAPPING opr of
                  None \<Rightarrow> Inl ValueError
                | Some f \<Rightarrow> f a val)))"

text \<open>\<^verbatim>\<open>Box.first_where\<close> and \<^verbatim>\<open>Box.first_where_or_fail\<close>.\<close>

fun first_where_loop ::
  "string \<Rightarrow> string option \<Rightarrow> pyval \<Rightarrow> pyval list \<Rightarrow> pyerr + pyval option" where
  "first_where_loop key operation val [] = Inr None"
| "first_where_loop key operation val (item # rest) =
     (case Box_where_item item key operation val of
        Inl e \<Rightarrow> Inl e
      | Inr True \<Rightarrow> Inr (Some item)
      | Inr False \<Rightarrow> first_where_loop key operation val rest)"

definition Box_first_where ::
  "box \<Rightarrow> string \<Rightarrow> string option \<Rightarrow> pyval \<Rightarrow> bool \<Rightarrow> pyerr + pyval" where
  "Box_first_where self key operation val or_fail =
     (case box_iter self of
        (vs, err) \<Rightarrow>
          (case first_where_loop key operation val vs of
             Inl e \<Rightarrow> Inl e
           | Inr (Some item) \<Rightarrow> Inr item
           | Inr None \<Rightarrow>
               (case err of
                  Some e \<Rightarrow> Inl e
                | None \<Rightarrow> if or_fail then Inl IndexError else Inr PNone)))"

definition Box_first_where_or_fail ::
  "box \<Rightarrow> string \<Rightarrow> string option \<Rightarrow> pyval \<Rightarrow> pyerr + pyval" where
  "Box_first_where_or_fail self key operation val = Box_first_where self key operation val True"

text \<open>\<^verbatim>\<open>Box._new\<close> and \<^verbatim>\<open>Box.map\<close>.\<close>

definition Box_new :: "box \<Rightarrow> gen \<Rightarrow> pyerr + box" where
  "Box_new self its =
     (case call_type (item_type self) its of
        Inl e \<Rightarrow> Inl e
      | Inr c \<Rightarrow> Inr (construct (cls self) c))"

definition Box_map :: "box \<Rightarrow> (pyval \<Rightarrow> pyerr + pyval) \<Rightarrow> pyerr + box" where
  "Box_map self callback = Box_new self (gen_map callback (box_iter self))"

text \<open>\<^verbatim>\<open>Box.reduce\<close> (the loop carries \<^verbatim>\<open>result\<close> and \<^verbatim>\<open>is_first_iteration\<close>) and \<^verbatim>\<open>Box.sum\<close>.\<close>

fun reduce_loop ::
  "(pyval \<Rightarrow> pyval \<Rightarrow> pyerr + pyval) \<Rightarrow> pyval \<Rightarrow> bool \<Rightarrow> pyval list \<Rightarrow> pyerr + pyval" where
  "reduce_loop callback result is_first_iteration [] = Inr result"
| "reduce_loop callback result is_first_iteration (v # vs) =
     (if is_first_iteration \<and> result = PNone
      then reduce_loop callback v False vs
      else (case callback result v of
              Inl e \<Rightarrow> Inl e
            | Inr r \<Rightarrow> reduce_loop callback r is_first_iteration vs))"

definition Box_reduce ::
  "box \<Rightarrow> (pyval \<Rightarrow> pyval \<Rightarrow> pyerr + pyval) \<Rightarrow> pyval \<Rightarrow> pyerr + pyval" where
  "Box_reduce self callback initial_value =
     (case box_iter self of
        (vs, err) \<Rightarrow>
          (case reduce_loop callback initial_value True vs of
             Inl e \<Rightarrow> Inl e
           | Inr r \<Rightarrow> finish err r))"

definition Box_sum :: "box \<Rightarrow> pyerr + pyval" where
  "Box_sum self = Box_reduce self py_add PNone"

subsection \<open>\<^verbatim>\<open>SizedBox\<close>\<close>

text \<open>\<^verbatim>\<open>SizedBox.average\<close>; the class \<^verbatim>\<open>Box\<close> has no such method.\<close>

definition SizedBox_average :: "box \<Rightarrow> pyerr + pyval" where
  "SizedBox_average self =
     (if cls self = Box then Inl AttributeError
      else if \<not> Box_bool self then Inl ZeroDivisionError
      else (case Box_sum self of
              Inl e \<Rightarrow> Inl e
            | Inr the_sum \<Rightarrow>
                if \<not> is_numbers_Complex the_sum then Inl AssertionError
                else (case SizedBox_len self of
                        Inl e \<Rightarrow> Inl e
                      | Inr n \<Rightarrow> py_truediv the_sum (PInt (int n)))))"

subsection \<open>\<^verbatim>\<open>SequenceBox\<close>\<close>



section \<open>Reference notions\<close>

text \<open>The left fold of a binary operation that may raise, from a first value.\<close>

fun fold_left ::
  "(pyval \<Rightarrow> pyval \<Rightarrow> pyerr + pyval) \<Rightarrow> pyval \<Rightarrow> pyval list \<Rightarrow> pyerr + pyval" where
  "fold_left f acc [] = Inr acc"
| "fold_left f acc (v # vs) = (case f acc v of Inl e \<Rightarrow> Inl e | Inr r \<Rightarrow> fold_left f r vs)"

text \<open>The elements of a list, tuple or string, in positional order.\<close>

fun seq_elems :: "pyval \<Rightarrow> pyval list" where
  "seq_elems (PList xs) = xs"
| "seq_elems (PTuple xs) = xs"
| "seq_elems (PStr s) = map (\<lambda>c. PStr [c]) s"
| "seq_elems _ = []"



section \<open>Iteration of a \<^verbatim>\<open>SequenceBox\<close>\<close>

lemma SequenceBox_getitem_elems:
  "items self = Some it \<Longrightarrow> is_Sequence it \<Longrightarrow>
   SequenceBox_getitem self i = seq_index (seq_elems it) i"
  by (cases it) (simp_all add: SequenceBox_getitem_def)

lemma seq_index_nat:
  "seq_index xs (int i) = (if i < length xs then Inr (xs ! i) else Inl IndexError)"
  by (simp add: seq_index_def Let_def)

lemma Sequence_iter_from_elems:
  assumes "items self = Some it" and "is_Sequence it"
  shows "Sequence_iter_from self i = (drop i (seq_elems it), None)"
proof (induction "length (seq_elems it) - i" arbitrary: i)
  case 0
  then have "\<not> i < length (seq_elems it)" by simp
  then show ?case
    by (subst Sequence_iter_from.simps)
      (simp add: SequenceBox_getitem_elems [OF assms] seq_index_nat)
next
  case (Suc k)
  then have less: "i < length (seq_elems it)" by simp
  from Suc have "k = length (seq_elems it) - Suc i" by simp
  then have IH: "Sequence_iter_from self (Suc i) = (drop (Suc i) (seq_elems it), None)"
    by (rule Suc.hyps(1))
  show ?case
    by (subst Sequence_iter_from.simps)
      (simp add: SequenceBox_getitem_elems [OF assms] seq_index_nat less IH Cons_nth_drop_Suc)
qed

lemma box_iter_SequenceBox_init:
  "box_iter (SequenceBox_init v) = (seq_elems (if is_Sequence v then v else PList [v]), None)"
proof -
  let ?it = "if is_Sequence v then v else PList [v]"
  have 1: "items (SequenceBox_init v) = Some ?it"
    by (simp add: SequenceBox_init_def Box_init_def)
  have 2: "is_Sequence ?it" by simp
  have "cls (SequenceBox_init v) = SequenceBox"
    by (simp add: SequenceBox_init_def Box_init_def)
  then show ?thesis
    using Sequence_iter_from_elems [OF 1 2, of 0]
    by (simp add: box_iter_def Sequence_iter_def)
qed

section \<open>\<^verbatim>\<open>Box.chunk\<close>\<close>

text \<open>
  Once \<^verbatim>\<open>chunk\<close> has reached \<^verbatim>\<open>chunk_size\<close> elements it only grows, so the generator yields
  at most once: the first \<^verbatim>\<open>chunk_size\<close> values, when there are that many.
\<close>

lemma chunk_loop_full:
  "chunk_size \<le> int (length chunk) \<Longrightarrow> fst (chunk_loop chunk_size chunk vs) = []"
  by (induction vs arbitrary: chunk) (auto simp: Let_def split: prod.splits)

lemma chunk_loop_partial:
  "length chunk < n \<Longrightarrow>
   fst (chunk_loop (int n) chunk vs) =
     (if n \<le> length chunk + length vs then [chunk @ take (n - length chunk) vs] else [])"
proof (induction vs arbitrary: chunk)
  case Nil
  then show ?case by simp
next
  case (Cons v vs)
  show ?case
  proof (cases "Suc (length chunk) = n")
    case True
    then have "fst (chunk_loop (int n) (chunk @ [v]) vs) = []"
      by (intro chunk_loop_full) simp
    with True show ?thesis
      by (auto simp: Let_def split: prod.splits)
  next
    case False
    with Cons.prems have lt: "length (chunk @ [v]) < n" by simp
    have "n - length chunk = Suc (n - Suc (length chunk))"
      using Cons.prems by simp
    with False Cons.IH [OF lt] show ?thesis
      by (auto simp: Let_def)
  qed
qed

lemma chunk_loop_once:
  "0 < n \<Longrightarrow> fst (chunk_loop (int n) [] vs) = (if n \<le> length vs then [take n vs] else [])"
  using chunk_loop_partial [of "[]" n vs] by simp

lemma chunk_loop_final: "snd (chunk_loop chunk_size chunk vs) = chunk @ vs"
  by (induction vs arbitrary: chunk) (simp_all add: Let_def split_beta)

text \<open>
  Claim C1. A generic (non-sequence) Box over five elements with \<^verbatim>\<open>chunk(2)\<close> should yield
  two groups of two consecutive elements. The code yields one group only: the list
  \<^verbatim>\<open>chunk\<close>, which holds \<^verbatim>\<open>[1, 2]\<close> when it is yielded and all five elements once the
  generator is exhausted.
\<close>

theorem Box_chunk_yields_one_group:
  "yielded (Box_chunk (Box_init Box (PList [PInt 1, PInt 2, PInt 3, PInt 4, PInt 5])) 2)
     = [[PInt 1, PInt 2]]
   \<and> drained (Box_chunk (Box_init Box (PList [PInt 1, PInt 2, PInt 3, PInt 4, PInt 5])) 2)
     = [PList [PInt 1, PInt 2, PInt 3, PInt 4, PInt 5]]
   \<and> raised (Box_chunk (Box_init Box (PList [PInt 1, PInt 2, PInt 3, PInt 4, PInt 5])) 2)
     = None"
  by (simp add: Box_chunk_def Box_init_def box_iter_def Box_iter_def drained_def Let_def)

section \<open>\<^verbatim>\<open>SequenceBox.__init__\<close>\<close>

text \<open>
  Claim C2. A \<^verbatim>\<open>SequenceBox\<close> built from a text string should hold the one-element wrap
  of the string. In the code a string passes the \<^verbatim>\<open>isinstance(items, abc.Sequence)\<close> test:
  \<^verbatim>\<open>items\<close> is the string itself and the Box iterates its characters.
\<close>

theorem SequenceBox_init_str_not_wrapped:
  "items (SequenceBox_init (PStr s)) = Some (PStr s)
   \<and> items (SequenceBox_init (PStr s)) \<noteq> Some (PList [PStr s])
   \<and> box_iter (SequenceBox_init (PStr s)) = (map (\<lambda>c. PStr [c]) s, None)"
  by (simp add: box_iter_SequenceBox_init) (simp add: SequenceBox_init_def Box_init_def)

section \<open>\<^verbatim>\<open>Box.reduce\<close> and \<^verbatim>\<open>Box.sum\<close>\<close>

text \<open>
  Once \<^verbatim>\<open>is_first_iteration\<close> is false the loop is a left fold; without a seed the first
  element becomes the accumulator and clears the flag.
\<close>

lemma reduce_loop_seeded: "reduce_loop f r False vs = fold_left f r vs"
  by (induction vs arbitrary: r) (auto split: sum.splits)

lemma reduce_loop_unseeded: "reduce_loop f PNone True (v # vs) = fold_left f v vs"
  by (simp add: reduce_loop_seeded)


lemma Box_reduce_empty: "box_iter self = ([], None) \<Longrightarrow> Box_reduce self f initial = Inr initial"
  by (simp add: Box_reduce_def)

text \<open>
  Claim C3. After an explicit seed, a \<^verbatim>\<open>None\<close> returned by the callback should not make
  the next element the accumulator. In the code the flag \<^verbatim>\<open>is_first_iteration\<close> is only
  cleared in the seeding branch, so with the seed 10 it is still set when the callback
  returns \<^verbatim>\<open>None\<close> for the element 1: the element 2 replaces the accumulator and the
  callback is not called on it. The left fold from the seed calls it on \<^verbatim>\<open>(None, 2)\<close>.
\<close>

theorem Box_reduce_reseeds_after_None:
  "Box_reduce (SequenceBox_init (PList [PInt 1, PInt 2, PInt 3]))
     (\<lambda>acc v. if v = PInt 1 then Inr PNone else Inr (PList [acc, v])) (PInt 10)
     = Inr (PList [PInt 2, PInt 3])
   \<and> fold_left (\<lambda>acc v. if v = PInt 1 then Inr PNone else Inr (PList [acc, v]))
       (PInt 10) [PInt 1, PInt 2, PInt 3]
     = Inr (PList [PList [PNone, PInt 2], PInt 3])"
  by (simp add: Box_reduce_def box_iter_SequenceBox_init)

text \<open>
  Claim C9. \<^verbatim>\<open>sum()\<close> of a Box without elements is \<^verbatim>\<open>None\<close>; \<^verbatim>\<open>sum()\<close> of a Box with the
  elements \<open>v, rest\<close> is the left fold of \<^verbatim>\<open>+\<close> over \<open>rest\<close> from \<open>v\<close>.
\<close>

theorem Box_sum_left_fold:
  assumes "box_iter self = (vs, None)"
  shows "Box_sum self = (case vs of [] \<Rightarrow> Inr PNone | v # rest \<Rightarrow> fold_left py_add v rest)"
  using assms
  by (cases vs) (auto simp: Box_sum_def Box_reduce_def reduce_loop_seeded split: sum.splits)

theorem Box_sum_left_fold_witness:
  "box_iter (SequenceBox_init (PList [])) = ([], None)
   \<and> Box_sum (SequenceBox_init (PList [])) = Inr PNone
   \<and> box_iter (SequenceBox_init (PList [PInt 1, PInt 2, PInt 3, PInt 5]))
       = ([PInt 1, PInt 2, PInt 3, PInt 5], None)
   \<and> Box_sum (SequenceBox_init (PList [PInt 1, PInt 2, PInt 3, PInt 5])) = Inr (PInt 11)"
proof -
  have e: "box_iter (SequenceBox_init (PList [])) = ([], None)"
    by (simp add: box_iter_SequenceBox_init)
  have n: "box_iter (SequenceBox_init (PList [PInt 1, PInt 2, PInt 3, PInt 5]))
             = ([PInt 1, PInt 2, PInt 3, PInt 5], None)"
    by (simp add: box_iter_SequenceBox_init)
  show ?thesis
    using e n Box_sum_left_fold [OF e] Box_sum_left_fold [OF n]
    by (simp add: py_add_def)
qed

section \<open>\<^verbatim>\<open>SequenceBox.chunk\<close>\<close>

lemma gen_collect_Inr: "gen_collect (map (\<lambda>x. Inr (f x)) xs) = (map f xs, None)"
  by (induction xs) simp_all




lemma SequenceBox_init_simps:
  "cls (SequenceBox_init v) = SequenceBox"
  "u_items (SequenceBox_init v) = v"
  "items (SequenceBox_init v) = Some (if is_Sequence v then v else PList [v])"
  by (simp_all add: SequenceBox_init_def Box_init_def)











section \<open>\<^verbatim>\<open>SequenceBox.reverse\<close>\<close>







section \<open>\<^verbatim>\<open>SizedBox.average\<close>\<close>








lemma construct_simps:
  "cls (construct c xs) = c"
  "u_items (construct c xs) = xs"
  by (simp_all add: construct_def SequenceBox_init_def Box_init_def)




section \<open>The errors of \<^verbatim>\<open>first\<close>, \<^verbatim>\<open>first_where\<close> and \<^verbatim>\<open>average\<close>\<close>

lemma py_len_zero: "py_len v = Inr 0 \<Longrightarrow> \<not> py_bool v"
  by (cases v) auto

lemma first_where_loop_no_match:
  "list_all (\<lambda>v. Box_where_item v key operation val = Inr False) vs \<Longrightarrow>
   first_where_loop key operation val vs = Inr None"
  by (induction vs) auto

text \<open>
  Claim C4, as stated: \<^verbatim>\<open>first(or_fail=True)\<close> on an empty Box and \<^verbatim>\<open>average()\<close> on an
  empty sized Box raise the same error class. They do not: on \<^verbatim>\<open>SequenceBox([])\<close> the
  first raises \<^verbatim>\<open>IndexError\<close> and the second \<^verbatim>\<open>ZeroDivisionError\<close>.
\<close>

theorem first_and_average_errors_differ:
  "Box_first (SequenceBox_init (PList [])) True = Inl IndexError
   \<and> SizedBox_average (SequenceBox_init (PList [])) = Inl ZeroDivisionError
   \<and> Box_first (SequenceBox_init (PList [])) True \<noteq> SizedBox_average (SequenceBox_init (PList []))"
  by (simp add: Box_first_def box_iter_SequenceBox_init SizedBox_average_def Box_bool_def
      SequenceBox_init_simps)

text \<open>
  Claim C4, amended. \<^verbatim>\<open>first(or_fail=True)\<close> (and \<^verbatim>\<open>first_or_fail()\<close>) on a Box that
  iterates no element, and \<^verbatim>\<open>first_where(..., or_fail=True)\<close> (and
  \<^verbatim>\<open>first_where_or_fail(...)\<close>) on a Box none of whose elements matches, raise
  \<^verbatim>\<open>IndexError\<close>; \<^verbatim>\<open>average()\<close> on a sized Box of length 0 raises \<^verbatim>\<open>ZeroDivisionError\<close>,
  which is another class.
\<close>

theorem empty_errors_by_operation:
  assumes "box_iter b1 = ([], None)"
    and "box_iter b2 = (vs, None)"
    and "list_all (\<lambda>v. Box_where_item v key operation val = Inr False) vs"
    and "cls b3 \<noteq> Box" and "SizedBox_len b3 = Inr 0"
  shows "Box_first b1 True = Inl IndexError
         \<and> Box_first_or_fail b1 = Inl IndexError
         \<and> Box_first_where b2 key operation val True = Inl IndexError
         \<and> Box_first_where_or_fail b2 key operation val = Inl IndexError
         \<and> SizedBox_average b3 = Inl ZeroDivisionError
         \<and> IndexError \<noteq> ZeroDivisionError"
proof -
  from assms(4,5) have "\<not> Box_bool b3"
    by (simp add: SizedBox_len_def Box_bool_def py_len_zero)
  with assms show ?thesis
    by (simp add: Box_first_def Box_first_or_fail_def Box_first_where_def
        Box_first_where_or_fail_def first_where_loop_no_match SizedBox_average_def)
qed

theorem empty_errors_by_operation_witness:
  "Box_first (SequenceBox_init (PList [])) True = Inl IndexError
   \<and> Box_first_where
       (SequenceBox_init (PList [PDict [(PStr ''name'', PStr ''X''), (PStr ''id'', PInt 1)]]))
       ''name'' (Some ''=='') (PStr ''Z'') True = Inl IndexError
   \<and> SizedBox_average (SequenceBox_init (PList [])) = Inl ZeroDivisionError"
proof -
  let ?d = "PDict [(PStr ''name'', PStr ''X''), (PStr ''id'', PInt 1)]"
  have 1: "box_iter (SequenceBox_init (PList [])) = ([], None)"
    by (simp add: box_iter_SequenceBox_init)
  have 2: "box_iter (SequenceBox_init (PList [?d])) = ([?d], None)"
    by (simp add: box_iter_SequenceBox_init)
  have 3: "list_all (\<lambda>v. Box_where_item v ''name'' (Some ''=='') (PStr ''Z'') = Inr False) [?d]"
    by (simp add: Box_where_item_def dict_getitem_def OPERATOR_MAPPING_def op_eq_def)
  have 4: "cls (SequenceBox_init (PList [])) \<noteq> Box"
    by (simp add: SequenceBox_init_simps)
  have 5: "SizedBox_len (SequenceBox_init (PList [])) = Inr 0"
    by (simp add: SizedBox_len_def SequenceBox_init_simps)
  show ?thesis
    using empty_errors_by_operation [OF 1 2 3 4 5] by simp
qed

section \<open>A \<^verbatim>\<open>SequenceBox\<close> of a value that is not a sequence\<close>

text \<open>
  Claim C10, as stated: iteration and membership of \<^verbatim>\<open>SequenceBox(x)\<close> work on the
  original \<open>x\<close>, so \<^verbatim>\<open>SequenceBox({1, 2, 3})\<close> iterates the three elements of the set. It
  iterates one element, the set itself, and 2 is not a member of the Box although it is
  one of the set.
\<close>

theorem SequenceBox_iterates_items_not_original:
  "fst (box_iter (SequenceBox_init (PSet [PInt 1, PInt 2, PInt 3]))) = [PSet [PInt 1, PInt 2, PInt 3]]
   \<and> py_iter (PSet [PInt 1, PInt 2, PInt 3]) = Inr [PInt 1, PInt 2, PInt 3]
   \<and> Sequence_contains (SequenceBox_init (PSet [PInt 1, PInt 2, PInt 3])) (PInt 2) = Inr False
   \<and> py_in (PInt 2) (PSet [PInt 1, PInt 2, PInt 3]) = Inr True"
  by (simp add: box_iter_SequenceBox_init Sequence_contains_def Sequence_iter_def
      Sequence_iter_from_elems [where it = "PList [PSet [PInt 1, PInt 2, PInt 3]]"]
      SequenceBox_init_simps)

text \<open>
  Claim C10, amended. For a value \<open>x\<close> that is not a sequence, \<^verbatim>\<open>SequenceBox(x)\<close> has
  \<^verbatim>\<open>items == [x]\<close> and \<^verbatim>\<open>_items\<close> the original \<open>x\<close>. \<^verbatim>\<open>len\<close> and the truth value are those of
  \<open>x\<close>, whereas iteration and membership, the mixin methods of \<^verbatim>\<open>abc.Sequence\<close>, go
  through \<^verbatim>\<open>__getitem__\<close> and so work on \<^verbatim>\<open>items\<close>: the Box iterates the single element
  \<open>x\<close>, and a value is a member exactly when it is \<open>x\<close> or equal to \<open>x\<close>.
\<close>

theorem SequenceBox_non_sequence_wrap:
  assumes "\<not> is_Sequence x"
  shows "items (SequenceBox_init x) = Some (PList [x])
         \<and> u_items (SequenceBox_init x) = x
         \<and> SizedBox_len (SequenceBox_init x) = py_len x
         \<and> Box_bool (SequenceBox_init x) = py_bool x
         \<and> box_iter (SequenceBox_init x) = ([x], None)
         \<and> Sequence_contains (SequenceBox_init x) y = Inr (x = y \<or> py_eq x y)"
proof -
  have it: "box_iter (SequenceBox_init x) = ([x], None)"
    using assms by (simp add: box_iter_SequenceBox_init)
  then have "Sequence_iter (SequenceBox_init x) = ([x], None)"
    by (simp add: box_iter_def SequenceBox_init_simps)
  then have "Sequence_contains (SequenceBox_init x) y = Inr (x = y \<or> py_eq x y)"
    by (simp add: Sequence_contains_def)
  with it assms show ?thesis
    by (simp add: SequenceBox_init_simps SizedBox_len_def Box_bool_def)
qed

theorem SequenceBox_non_sequence_wrap_witness:
  "items (SequenceBox_init (PSet [PInt 1, PInt 2, PInt 3])) = Some (PList [PSet [PInt 1, PInt 2, PInt 3]])
   \<and> SizedBox_len (SequenceBox_init (PSet [PInt 1, PInt 2, PInt 3])) = Inr 3
   \<and> Box_bool (SequenceBox_init (PSet [PInt 1, PInt 2, PInt 3]))
   \<and> box_iter (SequenceBox_init (PSet [PInt 1, PInt 2, PInt 3])) = ([PSet [PInt 1, PInt 2, PInt 3]], None)
   \<and> Sequence_contains (SequenceBox_init (PSet [PInt 1, PInt 2, PInt 3])) (PInt 2) = Inr False"
  using SequenceBox_non_sequence_wrap [of "PSet [PInt 1, PInt 2, PInt 3]" "PInt 2"] by simp

section \<open>\<^verbatim>\<open>Box._new\<close> and \<^verbatim>\<open>Box.map\<close>\<close>


lemma gen_map_identity: "gen_map Inr (vs, err) = (vs, err)"
  using gen_collect_Inr [of "\<lambda>v. v" vs]
  by (cases err) (simp_all add: gen_map_def)

lemma call_type_kind: "call_type t g = Inr v \<Longrightarrow> type_of v = t"
  by (cases t; cases g) (auto split: sum.splits option.splits elim: finish.elims)

lemma Box_new_kind:
  "Box_new self g = Inr b \<Longrightarrow> cls b = cls self \<and> item_type b = item_type self"
  by (auto simp: Box_new_def item_type_def construct_simps split: sum.splits
      dest: call_type_kind)

lemma Box_map_kind:
  "Box_map self f = Inr b \<Longrightarrow> cls b = cls self \<and> item_type b = item_type self"
  unfolding Box_map_def by (rule Box_new_kind)


text \<open>
  The same happens to a \<^verbatim>\<open>SequenceBox\<close> of a set: it iterates the set itself, which
  \<^verbatim>\<open>set(...)\<close> cannot hash.
\<close>

lemma Box_map_fails_on_SequenceBox_of_set:
  "Box_map (SequenceBox_init (PSet [PInt 1, PInt 2, PInt 3])) Inr = Inl TypeError"
  by (simp add: Box_map_def box_iter_SequenceBox_init
      gen_map_identity Box_new_def item_type_def SequenceBox_init_simps)



end
